theory Spec2Isabelle
  imports Main
begin

section \<open>Observable effects\<close>

text \<open>
  The program talks to the outside world through standard output, through the
  default \<open>log/slog\<close> logger and through calls into \<open>net/http\<close>.  Every such effect
  is recorded as an event; a run of the program yields the list of its events in the order
  in which they happen.
\<close>

datatype level = LevelInfo | LevelWarn | LevelError

text \<open>
  Go values of type \<open>error\<close>.  \<open>http.ErrServerClosed\<close> is the only error value the
  program compares against; every other error is \<open>Err\<close> with its message.  A variable
  of type \<open>error\<close> is a \<open>go_error option\<close>, \<open>None\<close> being \<open>nil\<close>.
\<close>

datatype go_error = ErrServerClosed | Err string

text \<open>\<open>time.Duration\<close> counts nanoseconds.\<close>

type_synonym Duration = int

definition Second :: Duration where
  "Second = 1000000000"

datatype event =
    Stdout string
  | Slog level string "go_error option"
  | CtxCancelled
  | ListenAndServe string
  | Shutdown Duration

section \<open>The configuration loader: configs/serverConfig.go\<close>

type_synonym environment = "string \<rightharpoonup> string"

record ServerConfig =
  Port :: string
  Host :: string
  Env :: string

text \<open>
  The part of the process state the loader works on: the process environment, the
  \<open>.env\<close> file of the working directory (\<open>None\<close> when it is absent or cannot be read,
  otherwise the key/value pairs it holds), and the events emitted so far.
\<close>

record proc =
  environ :: environment
  dotenv :: "environment option"
  out :: "event list"

text \<open>
  \<open>os.Getenv\<close> of the Go standard library: the value of the variable, which is empty
  when the variable is not present.
\<close>

definition Getenv :: "proc \<Rightarrow> string \<Rightarrow> string" where
  "Getenv p key = (case environ p key of None \<Rightarrow> [] | Some v \<Rightarrow> v)"

text \<open>
  \<open>godotenv.Load()\<close> of the library \<open>github.com/joho/godotenv\<close>, which the loader calls
  without arguments.  The library is a dependency, not part of the repository; it is
  modelled by its documented contract: \<open>Load\<close> reads the file \<open>.env\<close> of the current
  path; when the file cannot be read it returns the error and leaves the environment as
  it is; otherwise it sets every variable of the file that is not set in the process
  environment yet, never overriding a variable that already exists (that is what
  \<open>godotenv.Overload\<close> is for), and returns \<open>nil\<close>.
\<close>

definition godotenv_Load :: "proc \<Rightarrow> go_error option \<times> proc" where
  "godotenv_Load p =
     (case dotenv p of
        None \<Rightarrow> (Some (Err ''open .env: no such file or directory''), p)
      | Some envMap \<Rightarrow> (None, p\<lparr>environ := envMap ++ environ p\<rparr>))"

definition dotenv_warning :: string where
  "dotenv_warning = ''Error loading .env file, using system environment variables''"

text \<open>
  \<open>GetServerConfig\<close>, lines 16 to 32.  The function returns a pointer to a freshly built
  struct; the pointer is never \<open>nil\<close>, so the model returns the struct itself, together
  with the process state the call leaves behind.
\<close>

definition GetServerConfig :: "proc \<Rightarrow> ServerConfig \<times> proc" where
  "GetServerConfig p =
     (let (err, p1) = godotenv_Load p;
          p2 = (if err \<noteq> None
                then p1\<lparr>out := out p1 @ [Slog LevelWarn dotenv_warning None]\<rparr>
                else p1);
          serverConfig = \<lparr>Port = Getenv p2 ''PORT'',
                          Host = Getenv p2 ''HOST'',
                          Env = Getenv p2 ''ENV''\<rparr>
      in (serverConfig, p2))"

section \<open>The HTTP surface: main.go, lines 203 to 207\<close>

text \<open>
  A request as far as routing reads it, and the \<open>http.ResponseWriter\<close> a handler writes
  to.  Of \<open>net/http\<close>: the first \<open>Write\<close> on a writer whose header has not been written
  sends the header with status 200 (\<open>http.StatusOK\<close>), and a second \<open>WriteHeader\<close> has
  no effect.
\<close>

record Request =
  Method :: string
  URLPath :: string

record ResponseWriter =
  wroteHeader :: bool
  statusCode :: nat
  written :: string

definition NewResponseWriter :: ResponseWriter where
  "NewResponseWriter = \<lparr>wroteHeader = False, statusCode = 0, written = []\<rparr>"

definition WriteHeader :: "nat \<Rightarrow> ResponseWriter \<Rightarrow> ResponseWriter" where
  "WriteHeader code w =
     (if wroteHeader w then w else w\<lparr>wroteHeader := True, statusCode := code\<rparr>)"

definition Write :: "string \<Rightarrow> ResponseWriter \<Rightarrow> ResponseWriter" where
  "Write b w =
     (let w1 = (if wroteHeader w then w else WriteHeader 200 w)
      in w1\<lparr>written := written w1 @ b\<rparr>)"

type_synonym HandlerFunc = "ResponseWriter \<Rightarrow> Request \<Rightarrow> ResponseWriter"

text \<open>The bytes of the raw string literal of line 206; \<open>CHR 0x22\<close> is the double quote.\<close>

definition relay_started :: string where
  "relay_started =
     ''{ '' @ [CHR 0x22] @ ''message'' @ [CHR 0x22] @ '': '' @
     [CHR 0x22] @ ''Relay Service Started'' @ [CHR 0x22] @ '' }''"

text \<open>The handler registered for \<open>/\<close>, lines 205 to 207.\<close>

definition root_handler :: HandlerFunc where
  "root_handler w r = Write relay_started w"

text \<open>
  The router of the library \<open>github.com/go-chi/chi/v5\<close>, a dependency, as far as the
  program uses it: a table of routes, each a method, a pattern without parameters and a
  handler.  chi routes an empty path as \<open>/\<close>.  A request whose method is not one of the
  nine methods chi knows is answered 405.  Otherwise the request is served by the handler
  of the route with its method and its path; without such a route chi answers 405 when
  the path has a route for another method, and else 404 with the body that
  \<open>http.NotFound\<close> writes.
\<close>

type_synonym Router = "(string \<times> string \<times> HandlerFunc) list"

definition NewRouter :: Router where
  "NewRouter = []"

definition Get :: "string \<Rightarrow> HandlerFunc \<Rightarrow> Router \<Rightarrow> Router" where
  "Get pattern h r = r @ [(''GET'', pattern, h)]"

definition chi_methods :: "string list" where
  "chi_methods =
     [''CONNECT'', ''DELETE'', ''GET'', ''HEAD'', ''OPTIONS'', ''PATCH'', ''POST'', ''PUT'',
      ''TRACE'']"

definition NotFound :: HandlerFunc where
  "NotFound w req = Write (''404 page not found'' @ [CHR 0x0A]) (WriteHeader 404 w)"

definition MethodNotAllowed :: HandlerFunc where
  "MethodNotAllowed w req = WriteHeader 405 w"

definition ServeHTTP :: "Router \<Rightarrow> ResponseWriter \<Rightarrow> Request \<Rightarrow> ResponseWriter" where
  "ServeHTTP r w req =
     (let routePath = (if URLPath req = [] then ''/'' else URLPath req)
      in if Method req \<notin> set chi_methods then MethodNotAllowed w req
         else
           case find (\<lambda>(m, pattern, h). m = Method req \<and> pattern = routePath) r of
             Some (m, pattern, h) \<Rightarrow> h w req
           | None \<Rightarrow>
               if list_ex (\<lambda>(m, pattern, h). pattern = routePath) r
               then MethodNotAllowed w req
               else NotFound w req)"

text \<open>The router \<open>r\<close> of \<open>main\<close>, lines 203 to 207.\<close>

definition router :: Router where
  "router = Get ''/'' root_handler NewRouter"

text \<open>
  The body the specification prints, \<open>{"message": "Relay Service Started"}\<close>, and the
  comparison of two JSON texts up to the white space that JSON ignores (space, tab, line
  feed and carriage return outside of strings).  Both follow the words of the
  specification, not the code; they serve to compare the bytes the handler writes with
  the body the specification names.
\<close>

definition spec_body :: string where
  "spec_body =
     ''{'' @ [CHR 0x22] @ ''message'' @ [CHR 0x22] @ '': '' @
     [CHR 0x22] @ ''Relay Service Started'' @ [CHR 0x22] @ ''}''"

datatype json_mode = Outside | Inside | Escaped

fun json_compact :: "json_mode \<Rightarrow> string \<Rightarrow> string" where
  "json_compact m [] = []"
| "json_compact Outside (c # cs) =
     (if c = CHR '' '' \<or> c = CHR 0x09 \<or> c = CHR 0x0A \<or> c = CHR 0x0D
      then json_compact Outside cs
      else c # json_compact (if c = CHR 0x22 then Inside else Outside) cs)"
| "json_compact Inside (c # cs) =
     c # json_compact (if c = CHR 0x5C then Escaped
                       else if c = CHR 0x22 then Outside else Inside) cs"
| "json_compact Escaped (c # cs) = c # json_compact Inside cs"

section \<open>The lifecycle controller: main.go\<close>

text \<open>The fields of \<open>http.Server\<close> that \<open>main\<close> sets.\<close>

record Server =
  Addr :: string
  Handler :: Router
  ReadTimeout :: Duration
  WriteTimeout :: Duration
  IdleTimeout :: Duration

text \<open>
  Lines 213 to 224: the variable \<open>server\<close> is a pointer that starts as \<open>nil\<close> and is set
  in the development environment only.
\<close>

definition dev_server :: "ServerConfig \<Rightarrow> Router \<Rightarrow> Server option" where
  "dev_server serverConfig r =
     (if Env serverConfig = ''development''
      then Some \<lparr>Addr = Port serverConfig,
                 Handler = r,
                 ReadTimeout = 10 * Second,
                 WriteTimeout = 10 * Second,
                 IdleTimeout = 60 * Second\<rparr>
      else None)"

text \<open>
  The controlling path is \<open>main\<close> itself, lines 202 to 263; the goroutine that runs the
  accept loop, lines 231 to 241, is started by the \<open>go\<close> statement and runs beside it.
  Each has a program counter that names the statement it is about to execute.  A call
  that blocks (\<open>ListenAndServe\<close>, \<open>Shutdown\<close>) takes two steps: the call, and its return
  with the result the library gives.
\<close>

datatype main_pc =
    PrintStarts
  | MakeRouter
  | LoadConfig
  | BuildServer
  | ArmSignals
  | StartTask
  | AwaitSignal
  | LogShutdown
  | CallShutdown
  | InShutdown
  | CheckShutdownErr
  | LogExit
  | Return

text \<open>The line of \<open>main\<close> at which the controlling path stands.\<close>

fun at_line :: "main_pc \<Rightarrow> nat" where
  "at_line PrintStarts = 202"
| "at_line MakeRouter = 203"
| "at_line LoadConfig = 210"
| "at_line BuildServer = 213"
| "at_line ArmSignals = 227"
| "at_line StartTask = 231"
| "at_line AwaitSignal = 244"
| "at_line LogShutdown = 247"
| "at_line CallShutdown = 250"
| "at_line InShutdown = 254"
| "at_line CheckShutdownErr = 255"
| "at_line LogExit = 262"
| "at_line Return = 263"

datatype task_pc =
    NotStarted
  | PrintListening
  | CallListenAndServe
  | InListenAndServe
  | CheckListenErr
  | Ended

text \<open>
  A process runs, or has exited with a code (\<open>main\<close> returning is exit code 0), or has
  died of a panic that nothing recovers (the nil pointer dereference, after which the Go
  runtime ends the process with exit code 2), or has been terminated by a signal that
  nothing handles, in which case it has no exit code.
\<close>

datatype status = Running | Exited int | Panicked | Killed


text \<open>
  The state of the process: the process environment and the \<open>.env\<close> file, the variables
  \<open>serverConfig\<close> and \<open>server\<close> of \<open>main\<close>, whether \<open>signal.NotifyContext\<close> has taken
  over SIGINT and SIGTERM, whether the context it returned is cancelled, the two program
  counters with the variable \<open>err\<close> of each path, the status, and the events so far.
\<close>

record process =
  env_vars :: environment
  env_file :: "environment option"
  config :: ServerConfig
  server :: "Server option"
  armed :: bool
  ctx_done :: bool
  main_at :: main_pc
  main_err :: "go_error option"
  task_at :: task_pc
  task_err :: "go_error option"
  state :: status
  events :: "event list"

definition starts_msg :: string where
  "starts_msg = ''Relay starts!'' @ [CHR 0x0A]"

definition listening_msg :: "string \<Rightarrow> string" where
  "listening_msg addr = ''Relay Backend Server listening on PORT'' @ addr @ [CHR 0x0A]"

definition starting_err_msg :: string where
  "starting_err_msg = ''Error while starting the Server:''"

definition shutdown_msg :: string where
  "shutdown_msg = ''Shutdown Signal received, shutting down the backend server gracefully!''"

definition forced_msg :: string where
  "forced_msg = ''Server forced to shutdown:''"

definition exit_msg :: string where
  "exit_msg = ''Server Exited!''"

text \<open>
  The process when \<open>main\<close> is entered, with the environment and the \<open>.env\<close> file it is
  given: nothing has happened yet, the variables of \<open>main\<close> hold nothing, signals are not
  handled and the goroutine does not exist.
\<close>

definition boot :: "environment \<Rightarrow> environment option \<Rightarrow> process" where
  "boot env file =
     \<lparr>env_vars = env,
      env_file = file,
      config = \<lparr>Port = [], Host = [], Env = []\<rparr>,
      server = None,
      armed = False,
      ctx_done = False,
      main_at = PrintStarts,
      main_err = None,
      task_at = NotStarted,
      task_err = None,
      state = Running,
      events = []\<rparr>"

text \<open>
  One step of the goroutine, lines 231 to 241.  Reading \<open>server.Addr\<close> through a
  \<open>nil\<close> pointer panics before anything is printed.
\<close>

definition task_step :: "process \<Rightarrow> process" where
  "task_step s =
     (case task_at s of
        NotStarted \<Rightarrow> s
      | PrintListening \<Rightarrow>
          (case server s of
             None \<Rightarrow> s\<lparr>state := Panicked\<rparr>
           | Some srv \<Rightarrow>
               s\<lparr>events := events s @ [Stdout (listening_msg (Addr srv))],
                 task_at := CallListenAndServe\<rparr>)
      | CallListenAndServe \<Rightarrow>
          (case server s of
             None \<Rightarrow> s\<lparr>state := Panicked\<rparr>
           | Some srv \<Rightarrow>
               s\<lparr>events := events s @ [ListenAndServe (Addr srv)],
                 task_at := InListenAndServe\<rparr>)
      | InListenAndServe \<Rightarrow> s
      | CheckListenErr \<Rightarrow>
          (if task_err s \<noteq> None \<and> task_err s \<noteq> Some ErrServerClosed
           then s\<lparr>events := events s @ [Slog LevelError starting_err_msg (task_err s)],
                  task_at := Ended\<rparr>
           else s\<lparr>task_at := Ended\<rparr>)
      | Ended \<Rightarrow> s)"

text \<open>
  One step of the controlling path, lines 202 to 263.  \<open>GetServerConfig\<close> works on the
  environment, the \<open>.env\<close> file and the log of the process.  The receive from
  \<open>ctx.Done()\<close> blocks until the context is cancelled.  \<open>server.Shutdown\<close> on a \<open>nil\<close>
  server dereferences the pointer and panics.  When \<open>main\<close> returns the process exits
  with code 0, whatever the goroutine is doing.
\<close>

definition main_step :: "process \<Rightarrow> process" where
  "main_step s =
     (case main_at s of
        PrintStarts \<Rightarrow>
          s\<lparr>events := events s @ [Stdout starts_msg], main_at := MakeRouter\<rparr>
      | MakeRouter \<Rightarrow> s\<lparr>main_at := LoadConfig\<rparr>
      | LoadConfig \<Rightarrow>
          (let (serverConfig, p) =
                 GetServerConfig
                   \<lparr>environ = env_vars s, dotenv = env_file s, out = events s\<rparr>
           in s\<lparr>config := serverConfig,
                env_vars := environ p,
                events := out p,
                main_at := BuildServer\<rparr>)
      | BuildServer \<Rightarrow>
          s\<lparr>server := dev_server (config s) router, main_at := ArmSignals\<rparr>
      | ArmSignals \<Rightarrow> s\<lparr>armed := True, main_at := StartTask\<rparr>
      | StartTask \<Rightarrow> s\<lparr>task_at := PrintListening, main_at := AwaitSignal\<rparr>
      | AwaitSignal \<Rightarrow> (if ctx_done s then s\<lparr>main_at := LogShutdown\<rparr> else s)
      | LogShutdown \<Rightarrow>
          s\<lparr>events := events s @ [Slog LevelInfo shutdown_msg None],
            main_at := CallShutdown\<rparr>
      | CallShutdown \<Rightarrow>
          (case server s of
             None \<Rightarrow> s\<lparr>state := Panicked\<rparr>
           | Some srv \<Rightarrow>
               s\<lparr>events := events s @ [Shutdown (5 * Second)],
                 main_at := InShutdown\<rparr>)
      | InShutdown \<Rightarrow> s
      | CheckShutdownErr \<Rightarrow>
          (if main_err s \<noteq> None
           then s\<lparr>events := events s @ [Slog LevelError forced_msg (main_err s)],
                  main_at := LogExit\<rparr>
           else s\<lparr>main_at := LogExit\<rparr>)
      | LogExit \<Rightarrow>
          s\<lparr>events := events s @ [Slog LevelInfo exit_msg None],
            main_at := Return\<rparr>
      | Return \<Rightarrow> s\<lparr>state := Exited 0\<rparr>)"

text \<open>
  What can happen next in a running process: the operating system delivers SIGINT or
  SIGTERM, one of the two paths takes a step, or one of the two blocking calls returns
  with the result the library chooses.  A signal that arrives before
  \<open>signal.NotifyContext\<close> (line 227) has taken the two signals over terminates the
  process; afterwards the first signal cancels the context and later ones change nothing.
  A process that has exited, panicked or been terminated takes no step.
\<close>

datatype action =
    Signal
  | Main
  | Task
  | ListenAndServeReturns "go_error option"
  | ShutdownReturns "go_error option"

definition step :: "action \<Rightarrow> process \<Rightarrow> process" where
  "step a s =
     (if state s \<noteq> Running then s
      else case a of
        Signal \<Rightarrow>
          (if \<not> armed s then s\<lparr>state := Killed\<rparr>
           else if ctx_done s then s
           else s\<lparr>ctx_done := True, events := events s @ [CtxCancelled]\<rparr>)
      | Main \<Rightarrow> main_step s
      | Task \<Rightarrow> task_step s
      | ListenAndServeReturns err \<Rightarrow>
          (if task_at s = InListenAndServe
           then s\<lparr>task_err := err, task_at := CheckListenErr\<rparr> else s)
      | ShutdownReturns err \<Rightarrow>
          (if main_at s = InShutdown
           then s\<lparr>main_err := err, main_at := CheckShutdownErr\<rparr> else s))"

text \<open>A run: the steps of a schedule, one after the other.\<close>

fun run :: "action list \<Rightarrow> process \<Rightarrow> process" where
  "run [] s = s"
| "run (a # sched) s = run sched (step a s)"

text \<open>
  The process when the controlling path has executed lines 202 to 241 and no signal has
  arrived meanwhile: the configuration is loaded, the server is built or left \<open>nil\<close>,
  SIGINT and SIGTERM are taken over, the goroutine is started, and the controlling path
  stands at the receive of line 244.
\<close>

definition start :: "environment \<Rightarrow> environment option \<Rightarrow> process" where
  "start env file = run [Main, Main, Main, Main, Main, Main] (boot env file)"

text \<open>
  \<open>earlier a b tr\<close>: in the trace \<open>tr\<close> no \<open>b\<close> happens unless an \<open>a\<close> has happened
  before it.  \<open>times a tr\<close>: how often \<open>a\<close> happens in \<open>tr\<close>.  \<open>main_steps sched\<close>: how
  many steps the schedule gives to the controlling path.
\<close>

definition earlier :: "event \<Rightarrow> event \<Rightarrow> event list \<Rightarrow> bool" where
  "earlier a b tr = (b \<notin> set (takeWhile (\<lambda>e. e \<noteq> a) tr))"

definition times :: "event \<Rightarrow> event list \<Rightarrow> nat" where
  "times a tr = length (filter (\<lambda>e. e = a) tr)"

definition main_steps :: "action list \<Rightarrow> nat" where
  "main_steps sched = length (filter (\<lambda>a. a = Main) sched)"

section \<open>Invariants of a run\<close>

text \<open>
  The events of the controlling path from line 244 on and of the signal, among all
  events of a run.
\<close>

fun ctl :: "event \<Rightarrow> bool" where
  "ctl CtxCancelled = True"
| "ctl (Shutdown d) = True"
| "ctl (Slog l m e) = (m = shutdown_msg \<or> m = forced_msg \<or> m = exit_msg)"
| "ctl (Stdout t) = False"
| "ctl (ListenAndServe addr) = False"

text \<open>
  What the controlling path and the signal have put into the trace, read off the place
  the controlling path has reached.
\<close>

definition ctl_trace :: "process \<Rightarrow> event list" where
  "ctl_trace s =
     (if at_line (main_at s) \<le> 244 then (if ctx_done s then [CtxCancelled] else [])
      else if at_line (main_at s) = 247 then [CtxCancelled]
      else if at_line (main_at s) = 250
        then [CtxCancelled, Slog LevelInfo shutdown_msg None]
      else if at_line (main_at s) \<le> 255
        then [CtxCancelled, Slog LevelInfo shutdown_msg None, Shutdown (5 * Second)]
      else
        [CtxCancelled, Slog LevelInfo shutdown_msg None, Shutdown (5 * Second)] @
        (case main_err s of None \<Rightarrow> [] | Some e \<Rightarrow> [Slog LevelError forced_msg (Some e)]) @
        (if at_line (main_at s) = 263 then [Slog LevelInfo exit_msg None] else []))"

text \<open>
  \<open>ordered\<close>: the events of the controlling path stand in the trace in program order.
  \<open>sound\<close>: how the status of the process, the server, the signal handling and the
  program counters hang together.  \<open>loaded\<close>: what the start-up has put into the
  variables of \<open>main\<close>.  \<open>started\<close>: the start-up is over.
\<close>

definition ordered :: "process \<Rightarrow> bool" where
  "ordered s \<longleftrightarrow>
     filter ctl (events s) = ctl_trace s \<and>
     (244 < at_line (main_at s) \<longrightarrow> ctx_done s) \<and>
     (ctx_done s \<longrightarrow> armed s) \<and>
     (armed s \<longrightarrow> 227 < at_line (main_at s))"

definition sound :: "process \<Rightarrow> bool" where
  "sound s \<longleftrightarrow>
     (state s \<noteq> Running \<and> state s \<noteq> Panicked \<and> state s \<noteq> Killed \<longrightarrow>
        state s = Exited 0 \<and> main_at s = Return) \<and>
     (state s = Panicked \<longrightarrow> server s = None \<and> 213 < at_line (main_at s)) \<and>
     (state s = Killed \<longrightarrow> \<not> armed s) \<and>
     (armed s = (227 < at_line (main_at s))) \<and>
     (task_at s \<noteq> NotStarted \<longrightarrow> 231 < at_line (main_at s)) \<and>
     (server s = None \<longrightarrow>
        state s \<noteq> Exited 0 \<and> (task_at s = NotStarted \<or> task_at s = PrintListening) \<and>
        at_line (main_at s) < 254) \<and>
     (\<forall>e. Slog LevelError starting_err_msg e \<in> set (events s) \<longrightarrow>
        e \<noteq> None \<and> e \<noteq> Some ErrServerClosed)"

definition loaded :: "environment \<Rightarrow> environment option \<Rightarrow> process \<Rightarrow> bool" where
  "loaded env file s \<longleftrightarrow>
     (at_line (main_at s) = 202 \<longrightarrow>
        events s = [] \<and> env_vars s = env \<and> env_file s = file) \<and>
     (at_line (main_at s) = 203 \<or> at_line (main_at s) = 210 \<longrightarrow>
        events s = [Stdout starts_msg] \<and> env_vars s = env \<and> env_file s = file) \<and>
     (210 < at_line (main_at s) \<longrightarrow>
        config s =
          fst (GetServerConfig \<lparr>environ = env, dotenv = file, out = [Stdout starts_msg]\<rparr>)) \<and>
     (213 < at_line (main_at s) \<longrightarrow> server s = dev_server (config s) router)"

definition started :: "process \<Rightarrow> bool" where
  "started s \<longleftrightarrow> 244 \<le> at_line (main_at s) \<and> task_at s \<noteq> NotStarted \<and> armed s"

text \<open>
  \<open>to_drain\<close>: how many steps the controlling path needs, once the context is cancelled,
  until it has called \<open>Shutdown\<close>.  \<open>signalled\<close>: a process with a server whose context
  is cancelled and that has not died.
\<close>

fun to_drain :: "main_pc \<Rightarrow> nat" where
  "to_drain PrintStarts = 9"
| "to_drain MakeRouter = 8"
| "to_drain LoadConfig = 7"
| "to_drain BuildServer = 6"
| "to_drain ArmSignals = 5"
| "to_drain StartTask = 4"
| "to_drain AwaitSignal = 3"
| "to_drain LogShutdown = 2"
| "to_drain CallShutdown = 1"
| "to_drain InShutdown = 0"
| "to_drain CheckShutdownErr = 0"
| "to_drain LogExit = 0"
| "to_drain Return = 0"

definition signalled :: "process \<Rightarrow> bool" where
  "signalled s \<longleftrightarrow>
     server s \<noteq> None \<and> armed s \<and> ctx_done s \<and> 227 < at_line (main_at s) \<and>
     (state s = Running \<or> 254 \<le> at_line (main_at s))"

section \<open>Two process environments\<close>

text \<open>
  The environment of the scenarios of the specification: \<open>PORT=":4000"\<close> with
  \<open>ENV="production"\<close> and with \<open>ENV="development"\<close>.
\<close>

definition production :: environment where
  "production = [''PORT'' \<mapsto> '':4000'', ''ENV'' \<mapsto> ''production'']"

definition development :: environment where
  "development = [''PORT'' \<mapsto> '':4000'', ''ENV'' \<mapsto> ''development'']"

section \<open>Properties of the configuration loader\<close>

lemma GetServerConfig_absent:
  "dotenv p = None \<Longrightarrow>
   GetServerConfig p =
     (\<lparr>Port = Getenv p ''PORT'', Host = Getenv p ''HOST'', Env = Getenv p ''ENV''\<rparr>,
      p\<lparr>out := out p @ [Slog LevelWarn dotenv_warning None]\<rparr>)"
  by (simp add: GetServerConfig_def godotenv_Load_def Getenv_def)

lemma GetServerConfig_present:
  "dotenv p = Some m \<Longrightarrow>
   GetServerConfig p =
     (\<lparr>Port = Getenv (p\<lparr>environ := m ++ environ p\<rparr>) ''PORT'',
       Host = Getenv (p\<lparr>environ := m ++ environ p\<rparr>) ''HOST'',
       Env = Getenv (p\<lparr>environ := m ++ environ p\<rparr>) ''ENV''\<rparr>,
      p\<lparr>environ := m ++ environ p\<rparr>)"
  by (simp add: GetServerConfig_def godotenv_Load_def)

lemma environ_after_GetServerConfig:
  "environ (snd (GetServerConfig p)) =
     (case dotenv p of None \<Rightarrow> environ p | Some m \<Rightarrow> m ++ environ p)"
  by (cases "dotenv p") (simp_all add: GetServerConfig_absent GetServerConfig_present)

lemma dotenv_after_GetServerConfig:
  "dotenv (snd (GetServerConfig p)) = dotenv p"
  by (cases "dotenv p") (simp_all add: GetServerConfig_absent GetServerConfig_present)

lemma config_of_GetServerConfig:
  "fst (GetServerConfig p) =
     \<lparr>Port = Getenv (snd (GetServerConfig p)) ''PORT'',
      Host = Getenv (snd (GetServerConfig p)) ''HOST'',
      Env = Getenv (snd (GetServerConfig p)) ''ENV''\<rparr>"
  by (cases "dotenv p")
     (simp_all add: GetServerConfig_absent GetServerConfig_present Getenv_def)

text \<open>
  Claim C6.  In every process state the loader returns a configuration, and nothing else:
  the result is the struct whose fields \<open>Port\<close>, \<open>Host\<close> and \<open>Env\<close> are the raw values
  that the variables \<open>PORT\<close>, \<open>HOST\<close> and \<open>ENV\<close> have in the process environment when
  the loader reads them (after the \<open>.env\<close> file has been loaded into it), the empty
  string standing for a variable that is not set.  No value is checked or converted.
\<close>

theorem C6_loader_copies_raw_environment:
  "fst (GetServerConfig p) =
     \<lparr>Port = (case environ (snd (GetServerConfig p)) ''PORT'' of None \<Rightarrow> [] | Some v \<Rightarrow> v),
      Host = (case environ (snd (GetServerConfig p)) ''HOST'' of None \<Rightarrow> [] | Some v \<Rightarrow> v),
      Env = (case environ (snd (GetServerConfig p)) ''ENV'' of None \<Rightarrow> [] | Some v \<Rightarrow> v)\<rparr>
   \<and> environ (snd (GetServerConfig p)) =
       (case dotenv p of None \<Rightarrow> environ p | Some m \<Rightarrow> m ++ environ p)"
  using config_of_GetServerConfig [of p] environ_after_GetServerConfig [of p]
  by (simp add: Getenv_def)

text \<open>
  Claim C7.  When the \<open>.env\<close> file is absent the loader still returns a configuration.
  The error of \<open>godotenv.Load\<close> is handled on the spot: exactly one event is added to
  the log, a record at warning level, and nothing else of the process state changes.
  The fields of the configuration are the values of \<open>PORT\<close>, \<open>HOST\<close> and \<open>ENV\<close> in
  the process environment as it was before the call.
\<close>

theorem C7_absent_dotenv_file:
  assumes "dotenv p = None"
  shows "fst (GetServerConfig p) =
           \<lparr>Port = (case environ p ''PORT'' of None \<Rightarrow> [] | Some v \<Rightarrow> v),
            Host = (case environ p ''HOST'' of None \<Rightarrow> [] | Some v \<Rightarrow> v),
            Env = (case environ p ''ENV'' of None \<Rightarrow> [] | Some v \<Rightarrow> v)\<rparr>
         \<and> snd (GetServerConfig p) =
             p\<lparr>out := out p @ [Slog LevelWarn dotenv_warning None]\<rparr>"
  using assms by (simp add: GetServerConfig_absent Getenv_def)

theorem C7_absent_dotenv_file_witness:
  "dotenv \<lparr>environ = [''PORT'' \<mapsto> '':4000''], dotenv = None, out = []\<rparr> = None
   \<and> fst (GetServerConfig \<lparr>environ = [''PORT'' \<mapsto> '':4000''], dotenv = None, out = []\<rparr>) =
       \<lparr>Port = '':4000'', Host = [], Env = []\<rparr>
   \<and> out (snd (GetServerConfig \<lparr>environ = [''PORT'' \<mapsto> '':4000''], dotenv = None, out = []\<rparr>)) =
       [Slog LevelWarn dotenv_warning None]"
  using C7_absent_dotenv_file
          [of "\<lparr>environ = [''PORT'' \<mapsto> '':4000''], dotenv = None, out = []\<rparr>"]
  by simp

text \<open>
  Claim C8.  Loading is idempotent.  Two calls made in states with the same process
  environment and the same \<open>.env\<close> file return configurations that agree in every field,
  whatever else differs between the two states; and a second call, made in the state the
  first call has left behind, returns the configuration of the first call again.
\<close>

theorem C8_loading_is_idempotent:
  "(environ p = environ q \<and> dotenv p = dotenv q \<longrightarrow>
      Port (fst (GetServerConfig p)) = Port (fst (GetServerConfig q)) \<and>
      Host (fst (GetServerConfig p)) = Host (fst (GetServerConfig q)) \<and>
      Env (fst (GetServerConfig p)) = Env (fst (GetServerConfig q)))
   \<and> fst (GetServerConfig (snd (GetServerConfig p))) = fst (GetServerConfig p)"
proof (intro conjI impI)
  assume same: "environ p = environ q \<and> dotenv p = dotenv q"
  have "fst (GetServerConfig p) = fst (GetServerConfig q)"
    using same
    by (cases "dotenv q")
       (simp_all add: GetServerConfig_absent GetServerConfig_present Getenv_def)
  then show "Port (fst (GetServerConfig p)) = Port (fst (GetServerConfig q))"
    and "Host (fst (GetServerConfig p)) = Host (fst (GetServerConfig q))"
    and "Env (fst (GetServerConfig p)) = Env (fst (GetServerConfig q))"
    by simp_all
next
  show "fst (GetServerConfig (snd (GetServerConfig p))) = fst (GetServerConfig p)"
    by (cases "dotenv p")
       (simp_all add: GetServerConfig_absent GetServerConfig_present Getenv_def
          map_add_def split: option.splits)
qed

theorem C8_loading_is_idempotent_witness:
  "Port (fst (GetServerConfig
      \<lparr>environ = [''ENV'' \<mapsto> ''development''],
       dotenv = Some [''PORT'' \<mapsto> '':3000''], out = []\<rparr>)) = '':3000''
   \<and> Port (fst (GetServerConfig
      \<lparr>environ = [''ENV'' \<mapsto> ''development''],
       dotenv = Some [''PORT'' \<mapsto> '':3000''], out = [Stdout ''Relay starts!'']\<rparr>)) = '':3000''
   \<and> fst (GetServerConfig (snd (GetServerConfig
      \<lparr>environ = [''ENV'' \<mapsto> ''development''],
       dotenv = Some [''PORT'' \<mapsto> '':3000''], out = []\<rparr>))) =
      \<lparr>Port = '':3000'', Host = [], Env = ''development''\<rparr>"
proof -
  let ?p = "\<lparr>environ = [''ENV'' \<mapsto> ''development''],
             dotenv = Some [''PORT'' \<mapsto> '':3000''], out = []\<rparr>"
  let ?q = "\<lparr>environ = [''ENV'' \<mapsto> ''development''],
             dotenv = Some [''PORT'' \<mapsto> '':3000''], out = [Stdout ''Relay starts!'']\<rparr>"
  have first: "fst (GetServerConfig ?p) =
                 \<lparr>Port = '':3000'', Host = [], Env = ''development''\<rparr>"
    by (simp add: GetServerConfig_present Getenv_def map_add_def)
  from C8_loading_is_idempotent [of ?p ?q] first show ?thesis
    by simp
qed

text \<open>
  Claim C10.  A variable among \<open>PORT\<close>, \<open>HOST\<close> and \<open>ENV\<close> that is set in the process
  environment before the loader runs reaches the configuration with the value it had:
  loading the \<open>.env\<close> file leaves every variable that is set as it is, and gives a
  variable that is not set the value the file has for it.
\<close>

theorem C10_dotenv_never_replaces:
  "(environ p ''PORT'' = Some v \<longrightarrow> Port (fst (GetServerConfig p)) = v)
   \<and> (environ p ''HOST'' = Some v \<longrightarrow> Host (fst (GetServerConfig p)) = v)
   \<and> (environ p ''ENV'' = Some v \<longrightarrow> Env (fst (GetServerConfig p)) = v)
   \<and> (environ p k = Some v \<longrightarrow> environ (snd (GetServerConfig p)) k = Some v)
   \<and> (environ p k = None \<and> dotenv p = Some m \<longrightarrow>
        environ (snd (GetServerConfig p)) k = m k)"
  by (cases "dotenv p")
     (simp_all add: GetServerConfig_absent GetServerConfig_present Getenv_def map_add_def)

theorem C10_dotenv_never_replaces_witness:
  "environ \<lparr>environ = [''PORT'' \<mapsto> '':4000''],
            dotenv = Some [''PORT'' \<mapsto> '':3000'', ''HOST'' \<mapsto> ''localhost''],
            out = []\<rparr> ''PORT'' = Some '':4000''
   \<and> fst (GetServerConfig
        \<lparr>environ = [''PORT'' \<mapsto> '':4000''],
         dotenv = Some [''PORT'' \<mapsto> '':3000'', ''HOST'' \<mapsto> ''localhost''],
         out = []\<rparr>) =
       \<lparr>Port = '':4000'', Host = ''localhost'', Env = []\<rparr>"
proof -
  let ?p = "\<lparr>environ = [''PORT'' \<mapsto> '':4000''],
             dotenv = Some [''PORT'' \<mapsto> '':3000'', ''HOST'' \<mapsto> ''localhost''],
             out = []\<rparr>"
  have set_before: "environ ?p ''PORT'' = Some '':4000''"
    by simp
  have rest: "Host (fst (GetServerConfig ?p)) = ''localhost''"
             "Env (fst (GetServerConfig ?p)) = []"
    by (simp_all add: GetServerConfig_present Getenv_def map_add_def)
  from C10_dotenv_never_replaces [of ?p "'':4000''" "''PORT''"] set_before
  have "Port (fst (GetServerConfig ?p)) = '':4000''"
    by simp
  with rest set_before show ?thesis
    by (cases "fst (GetServerConfig ?p)") simp
qed

section \<open>Properties of the lifecycle controller\<close>

lemma msgs_distinct:
  "starting_err_msg \<noteq> shutdown_msg" "starting_err_msg \<noteq> forced_msg"
  "starting_err_msg \<noteq> exit_msg" "dotenv_warning \<noteq> shutdown_msg"
  "dotenv_warning \<noteq> forced_msg" "dotenv_warning \<noteq> exit_msg"
  "shutdown_msg \<noteq> forced_msg" "shutdown_msg \<noteq> exit_msg" "forced_msg \<noteq> exit_msg"
  "shutdown_msg \<noteq> starting_err_msg" "forced_msg \<noteq> starting_err_msg"
  "exit_msg \<noteq> starting_err_msg" "dotenv_warning \<noteq> starting_err_msg"
  by (simp_all add: starting_err_msg_def shutdown_msg_def forced_msg_def exit_msg_def
        dotenv_warning_def)

lemma run_invariant:
  assumes "\<And>a s. I s \<Longrightarrow> I (step a s)" and "I s"
  shows "I (run sched s)"
  using assms(2) by (induction sched arbitrary: s) (simp_all add: assms(1))

lemma run_append: "run (xs @ ys) s = run ys (run xs s)"
  by (induction xs arbitrary: s) simp_all

lemma out_after_GetServerConfig:
  "out (snd (GetServerConfig p)) =
     out p @ (case dotenv p of None \<Rightarrow> [Slog LevelWarn dotenv_warning None] | Some m \<Rightarrow> [])"
  by (cases "dotenv p") (simp_all add: GetServerConfig_absent GetServerConfig_present)

lemma main_step_LoadConfig:
  "main_at s = LoadConfig \<Longrightarrow>
   main_step s =
     s\<lparr>config := fst (GetServerConfig
                       \<lparr>environ = env_vars s, dotenv = env_file s, out = events s\<rparr>),
       env_vars := (case env_file s of None \<Rightarrow> env_vars s | Some m \<Rightarrow> m ++ env_vars s),
       events := events s @
         (case env_file s of None \<Rightarrow> [Slog LevelWarn dotenv_warning None] | Some m \<Rightarrow> []),
       main_at := BuildServer\<rparr>"
  by (cases "env_file s")
     (simp_all add: main_step_def case_prod_beta out_after_GetServerConfig
        environ_after_GetServerConfig)

lemma main_step_cases:
  "main_at s = PrintStarts \<Longrightarrow>
     main_step s = s\<lparr>events := events s @ [Stdout starts_msg], main_at := MakeRouter\<rparr>"
  "main_at s = MakeRouter \<Longrightarrow> main_step s = s\<lparr>main_at := LoadConfig\<rparr>"
  "main_at s = BuildServer \<Longrightarrow>
     main_step s = s\<lparr>server := dev_server (config s) router, main_at := ArmSignals\<rparr>"
  "main_at s = ArmSignals \<Longrightarrow> main_step s = s\<lparr>armed := True, main_at := StartTask\<rparr>"
  "main_at s = StartTask \<Longrightarrow>
     main_step s = s\<lparr>task_at := PrintListening, main_at := AwaitSignal\<rparr>"
  "main_at s = AwaitSignal \<Longrightarrow>
     main_step s = (if ctx_done s then s\<lparr>main_at := LogShutdown\<rparr> else s)"
  "main_at s = LogShutdown \<Longrightarrow>
     main_step s = s\<lparr>events := events s @ [Slog LevelInfo shutdown_msg None],
                      main_at := CallShutdown\<rparr>"
  "main_at s = CallShutdown \<Longrightarrow>
     main_step s =
       (case server s of
          None \<Rightarrow> s\<lparr>state := Panicked\<rparr>
        | Some srv \<Rightarrow>
            s\<lparr>events := events s @ [Shutdown (5 * Second)], main_at := InShutdown\<rparr>)"
  "main_at s = InShutdown \<Longrightarrow> main_step s = s"
  "main_at s = CheckShutdownErr \<Longrightarrow>
     main_step s =
       (if main_err s \<noteq> None
        then s\<lparr>events := events s @ [Slog LevelError forced_msg (main_err s)],
               main_at := LogExit\<rparr>
        else s\<lparr>main_at := LogExit\<rparr>)"
  "main_at s = LogExit \<Longrightarrow>
     main_step s = s\<lparr>events := events s @ [Slog LevelInfo exit_msg None],
                      main_at := Return\<rparr>"
  "main_at s = Return \<Longrightarrow> main_step s = s\<lparr>state := Exited 0\<rparr>"
  by (simp_all add: main_step_def)

lemma ordered_main_step: "ordered s \<Longrightarrow> ordered (main_step s)"
  by (cases "main_at s")
     (auto simp: ordered_def ctl_trace_def main_step_cases main_step_LoadConfig msgs_distinct
        split: option.splits)

lemma ordered_task_step: "ordered s \<Longrightarrow> ordered (task_step s)"
  by (cases "task_at s")
     (auto simp: ordered_def ctl_trace_def task_step_def msgs_distinct split: option.splits)

lemma ordered_step: "ordered s \<Longrightarrow> ordered (step a s)"
  by (cases a)
     (auto simp: step_def ordered_main_step ordered_task_step, 
      auto simp: ordered_def ctl_trace_def)

lemma sound_main_step: "sound s \<Longrightarrow> state s = Running \<Longrightarrow> sound (main_step s)"
  by (cases "main_at s")
     (auto simp: sound_def main_step_cases main_step_LoadConfig msgs_distinct
        split: option.splits)

lemma sound_task_step: "sound s \<Longrightarrow> state s = Running \<Longrightarrow> sound (task_step s)"
  by (cases "task_at s")
     (auto simp: sound_def task_step_def msgs_distinct split: option.splits)

lemma sound_step: "sound s \<Longrightarrow> sound (step a s)"
  by (cases a)
     (auto simp: step_def sound_main_step sound_task_step, auto simp: sound_def)

lemma loaded_main_step:
  "sound s \<Longrightarrow> loaded env file s \<Longrightarrow> loaded env file (main_step s)"
  by (cases "main_at s")
     (auto simp: loaded_def main_step_cases main_step_LoadConfig split: option.splits)

lemma loaded_task_step:
  "sound s \<Longrightarrow> loaded env file s \<Longrightarrow> loaded env file (task_step s)"
  by (cases "task_at s")
     (auto simp: loaded_def sound_def task_step_def split: option.splits)

lemma loaded_step: "sound s \<Longrightarrow> loaded env file s \<Longrightarrow> loaded env file (step a s)"
  by (cases a)
     (auto simp: step_def loaded_main_step loaded_task_step, auto simp: loaded_def sound_def)

lemma started_step: "started s \<Longrightarrow> started (step a s)"
  by (cases a; cases "main_at s"; cases "task_at s")
     (auto simp: started_def step_def main_step_cases task_step_def split: option.splits)

lemma ordered_boot: "ordered (boot env file)"
  by (simp add: ordered_def ctl_trace_def boot_def)

lemma sound_boot: "sound (boot env file)"
  by (simp add: sound_def boot_def)

lemma loaded_boot: "loaded env file (boot env file)"
  by (simp add: loaded_def boot_def)

lemma start_eq:
  "start env file =
     \<lparr>env_vars = (case file of None \<Rightarrow> env | Some m \<Rightarrow> m ++ env),
      env_file = file,
      config = fst (GetServerConfig
                      \<lparr>environ = env, dotenv = file, out = [Stdout starts_msg]\<rparr>),
      server = dev_server
                 (fst (GetServerConfig
                         \<lparr>environ = env, dotenv = file, out = [Stdout starts_msg]\<rparr>))
                 router,
      armed = True,
      ctx_done = False,
      main_at = AwaitSignal,
      main_err = None,
      task_at = PrintListening,
      task_err = None,
      state = Running,
      events = [Stdout starts_msg] @
        (case file of None \<Rightarrow> [Slog LevelWarn dotenv_warning None] | Some m \<Rightarrow> [])\<rparr>"
  by (cases "file")
     (simp_all add: start_def boot_def step_def main_step_cases main_step_LoadConfig)

lemma start_events:
  "events (start env file) =
     (case file of None \<Rightarrow> [Stdout starts_msg, Slog LevelWarn dotenv_warning None]
      | Some m \<Rightarrow> [Stdout starts_msg])"
  by (cases "file") (simp_all add: start_eq)

lemma start_fields:
  "server (start env file) = dev_server (config (start env file)) router"
  "armed (start env file)"
  "ctx_done (start env file) = False"
  "main_at (start env file) = AwaitSignal"
  "task_at (start env file) = PrintListening"
  "state (start env file) = Running"
  "main_err (start env file) = None"
  "task_err (start env file) = None"
  by (simp_all add: start_eq)

lemma run_start:
  "run sched (start env file) =
     run ([Main, Main, Main, Main, Main, Main] @ sched) (boot env file)"
  unfolding run_append start_def ..

lemma ordered_run_boot: "ordered (run sched (boot env file))"
  by (rule run_invariant [where I = ordered]) (simp_all add: ordered_step ordered_boot)

lemma sound_run_boot: "sound (run sched (boot env file))"
  by (rule run_invariant [where I = sound]) (simp_all add: sound_step sound_boot)

lemma loaded_run_boot: "loaded env file (run sched (boot env file))"
proof -
  have "sound (run sched (boot env file)) \<and> loaded env file (run sched (boot env file))"
    by (rule run_invariant [where I = "\<lambda>s. sound s \<and> loaded env file s"])
       (simp_all add: sound_step loaded_step sound_boot loaded_boot)
  then show ?thesis ..
qed

lemma ordered_run: "ordered (run sched (start env file))"
  unfolding run_start by (rule ordered_run_boot)

lemma sound_run: "sound (run sched (start env file))"
  unfolding run_start by (rule sound_run_boot)

lemma loaded_run: "loaded env file (run sched (start env file))"
  unfolding run_start by (rule loaded_run_boot)

lemma started_run: "started (run sched (start env file))"
proof (rule run_invariant [where I = started])
  show "started (step a s)" if "started s" for a s
    using that by (rule started_step)
  show "started (start env file)"
    by (simp add: started_def start_fields)
qed

lemma server_of_loaded:
  assumes "loaded env file s" and "213 < at_line (main_at s)"
  shows "server s = dev_server (config (start env file)) router"
  using assms by (simp add: loaded_def start_eq)

lemma earlier_filter:
  "P a \<Longrightarrow> P b \<Longrightarrow> earlier a b (filter P tr) = earlier a b tr"
  by (induction tr) (auto simp: earlier_def)

lemma times_filter: "P a \<Longrightarrow> times a (filter P tr) = times a tr"
  by (induction tr) (auto simp: times_def)

lemma member_filter: "P a \<Longrightarrow> (a \<in> set (filter P tr)) = (a \<in> set tr)"
  by simp

lemma ctl_trace_order:
  "times CtxCancelled (ctl_trace s) \<le> 1"
  "times (Shutdown (5 * Second)) (ctl_trace s) \<le> 1"
  "times (Slog LevelInfo shutdown_msg None) (ctl_trace s) \<le> 1"
  "times (Slog LevelInfo exit_msg None) (ctl_trace s) \<le> 1"
  "earlier CtxCancelled (Slog LevelInfo shutdown_msg None) (ctl_trace s)"
  "earlier CtxCancelled (Shutdown (5 * Second)) (ctl_trace s)"
  "earlier (Slog LevelInfo shutdown_msg None) (Shutdown (5 * Second)) (ctl_trace s)"
  "earlier (Shutdown (5 * Second)) (Slog LevelInfo exit_msg None) (ctl_trace s)"
  "Shutdown d \<in> set (ctl_trace s) \<longrightarrow> d = 5 * Second"
  by (cases "main_err s";
      simp add: ctl_trace_def times_def earlier_def msgs_distinct msgs_distinct [symmetric])+

lemma ctl_trace_complete:
  "main_at s = Return \<Longrightarrow>
     times CtxCancelled (ctl_trace s) = 1 \<and>
     times (Slog LevelInfo shutdown_msg None) (ctl_trace s) = 1 \<and>
     times (Shutdown (5 * Second)) (ctl_trace s) = 1 \<and>
     times (Slog LevelInfo exit_msg None) (ctl_trace s) = 1"
  by (cases "main_err s"; simp add: ctl_trace_def times_def msgs_distinct msgs_distinct [symmetric])

lemma ctl_trace_drained:
  "254 \<le> at_line (main_at s) \<Longrightarrow>
     Slog LevelInfo shutdown_msg None \<in> set (ctl_trace s) \<and>
     Shutdown (5 * Second) \<in> set (ctl_trace s)"
  by (simp add: ctl_trace_def)

lemma dev_server_None: "(dev_server cfg r = None) = (Env cfg \<noteq> ''development'')"
  by (simp add: dev_server_def)

lemma server_run_start:
  "server (run sched (start env file)) = dev_server (config (start env file)) router"
proof -
  have "244 \<le> at_line (main_at (run sched (start env file)))"
    using started_run [of sched env "file"] by (simp add: started_def)
  then show ?thesis
    using server_of_loaded [OF loaded_run [of env "file" sched]] by simp
qed

lemma nil_server_faults:
  assumes "server s = None" and "state s = Running"
  shows "task_at s = PrintListening \<Longrightarrow> state (step Task s) = Panicked"
    and "main_at s = CallShutdown \<Longrightarrow> state (step Main s) = Panicked"
  using assms by (simp_all add: step_def task_step_def main_step_def)

text \<open>
  Claim C1.  The server variable stays \<open>nil\<close> exactly when the environment field of the
  configuration is not \<open>development\<close>.  In that case the program raises no error while
  it starts: the process is running and the log holds no record at error level.  The
  server stays unset through every run, and every use of it is a nil pointer fault: as
  long as the process is alive the goroutine still stands before its first statement,
  which panics on \<open>server.Addr\<close>, the controlling path has not got past its call of
  \<open>server.Shutdown\<close>, which panics as well, and the process never exits with code 0.
\<close>

theorem C1_nil_server:
  "(server (start env file) = None) = (Env (config (start env file)) \<noteq> ''development'')
   \<and> (Env (config (start env file)) \<noteq> ''development'' \<longrightarrow>
        state (start env file) = Running
        \<and> (\<forall>m e. Slog LevelError m e \<notin> set (events (start env file)))
        \<and> server (run sched (start env file)) = None
        \<and> state (run sched (start env file)) \<noteq> Exited 0
        \<and> (state (run sched (start env file)) = Running \<longrightarrow>
             task_at (run sched (start env file)) = PrintListening
             \<and> state (step Task (run sched (start env file))) = Panicked
             \<and> (main_at (run sched (start env file)) = AwaitSignal
                \<or> main_at (run sched (start env file)) = LogShutdown
                \<or> main_at (run sched (start env file)) = CallShutdown)
             \<and> (main_at (run sched (start env file)) = CallShutdown \<longrightarrow>
                  state (step Main (run sched (start env file))) = Panicked)))"
proof (intro conjI impI)
  show "(server (start env file) = None) = (Env (config (start env file)) \<noteq> ''development'')"
    by (simp add: start_fields dev_server_None)
next
  assume other: "Env (config (start env file)) \<noteq> ''development''"
  let ?s = "run sched (start env file)"
  show "state (start env file) = Running"
    by (simp add: start_fields)
  show "\<forall>m e. Slog LevelError m e \<notin> set (events (start env file))"
    by (simp add: start_events split: option.splits)
  show nil: "server ?s = None"
    using other by (simp add: server_run_start dev_server_None)
  have snd: "sound ?s"
    by (rule sound_run)
  from snd nil show "state ?s \<noteq> Exited 0"
    by (simp add: sound_def)
  have begun: "started ?s"
    by (rule started_run)
  from snd nil begun show first: "task_at ?s = PrintListening" if "state ?s = Running"
    by (auto simp: sound_def started_def)
  from nil first show "state (step Task ?s) = Panicked" if "state ?s = Running"
    using that by (simp add: nil_server_faults)
  from snd nil begun
  show "main_at ?s = AwaitSignal \<or> main_at ?s = LogShutdown \<or> main_at ?s = CallShutdown"
    if "state ?s = Running"
    by (cases "main_at ?s") (auto simp: sound_def started_def)
  from nil show "state (step Main ?s) = Panicked"
    if "state ?s = Running" and "main_at ?s = CallShutdown"
    using that by (simp add: nil_server_faults)
qed

lemma config_production:
  "config (start production None) = \<lparr>Port = '':4000'', Host = [], Env = ''production''\<rparr>"
  by (simp add: start_eq GetServerConfig_absent Getenv_def production_def)

lemma config_development:
  "config (start development None) = \<lparr>Port = '':4000'', Host = [], Env = ''development''\<rparr>"
  by (simp add: start_eq GetServerConfig_absent Getenv_def development_def)

lemma start_production:
  "start production None =
     \<lparr>env_vars = production, env_file = None,
      config = \<lparr>Port = '':4000'', Host = [], Env = ''production''\<rparr>,
      server = None, armed = True, ctx_done = False, main_at = AwaitSignal,
      main_err = None, task_at = PrintListening, task_err = None, state = Running,
      events = [Stdout starts_msg, Slog LevelWarn dotenv_warning None]\<rparr>"
  by (simp add: start_eq GetServerConfig_absent Getenv_def dev_server_def)
     (simp add: production_def)

lemma start_development:
  "start development None =
     \<lparr>env_vars = development, env_file = None,
      config = \<lparr>Port = '':4000'', Host = [], Env = ''development''\<rparr>,
      server = Some \<lparr>Addr = '':4000'', Handler = router, ReadTimeout = 10 * Second,
                     WriteTimeout = 10 * Second, IdleTimeout = 60 * Second\<rparr>,
      armed = True, ctx_done = False, main_at = AwaitSignal, main_err = None,
      task_at = PrintListening, task_err = None, state = Running,
      events = [Stdout starts_msg, Slog LevelWarn dotenv_warning None]\<rparr>"
  by (simp add: start_eq GetServerConfig_absent Getenv_def dev_server_def)
     (simp add: development_def)

theorem C1_nil_server_witness:
  "Env (config (start production None)) \<noteq> ''development''
   \<and> server (start production None) = None
   \<and> state (run [Signal, Main, Main] (start production None)) = Running
   \<and> main_at (run [Signal, Main, Main] (start production None)) = CallShutdown
   \<and> state (step Main (run [Signal, Main, Main] (start production None))) = Panicked
   \<and> state (step Task (run [Signal, Main, Main] (start production None))) = Panicked"
proof -
  have other: "Env (config (start production None)) \<noteq> ''development''"
    by (simp add: config_production)
  have at: "state (run [Signal, Main, Main] (start production None)) = Running"
    "main_at (run [Signal, Main, Main] (start production None)) = CallShutdown"
    by (simp_all add: start_production step_def main_step_def)
  from C1_nil_server [of production None "[Signal, Main, Main]"] other at
  show ?thesis by simp
qed


lemma dev_server_Some:
  "Env cfg = ''development'' \<Longrightarrow>
   dev_server cfg r =
     Some \<lparr>Addr = Port cfg, Handler = r, ReadTimeout = 10 * Second,
           WriteTimeout = 10 * Second, IdleTimeout = 60 * Second\<rparr>"
  by (simp add: dev_server_def)

lemma step_stopped: "state s \<noteq> Running \<Longrightarrow> step a s = s"
  by (simp add: step_def)







lemma to_drain_done: "to_drain pc = 0 \<Longrightarrow> 254 \<le> at_line pc"
  by (cases pc) simp_all

lemma signalled_main_step:
  assumes "signalled s" and "state s = Running"
  shows "signalled (main_step s) \<and> to_drain (main_at (main_step s)) \<le> to_drain (main_at s) - 1"
  using assms
  by (cases "main_at s")
     (auto simp: signalled_def main_step_cases main_step_LoadConfig)

lemma signalled_task_step:
  assumes "signalled s"
  shows "signalled (task_step s) \<and> main_at (task_step s) = main_at s"
  using assms
  by (cases "task_at s") (auto simp: signalled_def task_step_def)

lemma signalled_step:
  assumes "signalled s"
  shows "signalled (step a s) \<and>
         to_drain (main_at (step a s)) \<le> to_drain (main_at s) - (if a = Main then 1 else 0)"
proof (cases "state s = Running")
  case False
  with assms show ?thesis
    by (cases "main_at s") (simp_all add: step_stopped signalled_def)
next
  case True
  show ?thesis
  proof (cases a)
    case Signal
    with assms True show ?thesis
      by (simp add: step_def signalled_def)
  next
    case Main
    with True signalled_main_step [OF assms True] show ?thesis
      by (simp add: step_def)
  next
    case Task
    with True signalled_task_step [OF assms] show ?thesis
      by (simp add: step_def)
  next
    case (ListenAndServeReturns e)
    with assms True show ?thesis
      by (simp add: step_def signalled_def)
  next
    case (ShutdownReturns e)
    with assms True show ?thesis
      by (auto simp: step_def signalled_def)
  qed
qed

lemma drain_progress:
  "signalled s \<Longrightarrow> to_drain (main_at s) \<le> main_steps cont \<Longrightarrow>
     254 \<le> at_line (main_at (run cont s))"
proof (induction cont arbitrary: s)
  case Nil
  then show ?case
    by (simp add: main_steps_def to_drain_done)
next
  case (Cons a cont)
  from signalled_step [OF Cons.prems(1), of a]
  have next_state: "signalled (step a s)"
    and less: "to_drain (main_at (step a s)) \<le>
                 to_drain (main_at s) - (if a = Main then 1 else 0)"
    by simp_all
  from Cons.prems(2) have "to_drain (main_at s) \<le> main_steps cont + (if a = Main then 1 else 0)"
    by (cases "a = Main") (simp_all add: main_steps_def)
  with less have "to_drain (main_at (step a s)) \<le> main_steps cont"
    by (simp split: if_splits)
  with next_state have "254 \<le> at_line (main_at (run cont (step a s)))"
    by (rule Cons.IH)
  then show ?case
    by simp
qed

text \<open>
  Claim C3 as it is stated fails.  With \<open>ENV="production"\<close> the signal fires and the
  shutdown message is logged, but \<open>server\<close> is \<open>nil\<close>: the call of \<open>server.Shutdown\<close>
  panics, the process is dead, and no drain ever begins.
\<close>

theorem C3_counterexample:
  "CtxCancelled \<in> set (events (run [Signal, Main, Main, Main] (start production None)))
   \<and> Slog LevelInfo shutdown_msg None \<in>
       set (events (run [Signal, Main, Main, Main] (start production None)))
   \<and> state (run [Signal, Main, Main, Main] (start production None)) = Panicked
   \<and> Shutdown (5 * Second) \<notin>
       set (events (run [Signal, Main, Main, Main] (start production None)))"
  by (simp add: start_production step_def main_step_def)

text \<open>
  Claim C3, as amended.  In the trace of every run of \<open>main\<close> from its first line, in
  whatever environment, the context is cancelled by the signal at most once; no drain
  (\<open>Shutdown\<close>) and no shutdown message comes before the cancellation; no drain comes
  before the shutdown message; every drain has the deadline of 5 seconds and there is at
  most one; and no exit message comes before the drain.  In a run that the controlling
  path has brought to its end each of the four events stands in the trace exactly once.
  In the development environment, once the shutdown signal has fired, the Controller
  does log the shutdown message and invoke the drain: they have happened as soon as the
  controlling path has been given four more steps, whatever else happens in between.
\<close>

theorem C3_shutdown_order:
  "times CtxCancelled (events (run sched (boot env file))) \<le> 1
   \<and> earlier CtxCancelled (Shutdown (5 * Second)) (events (run sched (boot env file)))
   \<and> earlier CtxCancelled (Slog LevelInfo shutdown_msg None)
         (events (run sched (boot env file)))
   \<and> earlier (Slog LevelInfo shutdown_msg None) (Shutdown (5 * Second))
         (events (run sched (boot env file)))
   \<and> (Shutdown d \<in> set (events (run sched (boot env file))) \<longrightarrow> d = 5 * Second)
   \<and> times (Shutdown (5 * Second)) (events (run sched (boot env file))) \<le> 1
   \<and> earlier (Shutdown (5 * Second)) (Slog LevelInfo exit_msg None)
         (events (run sched (boot env file)))
   \<and> (state (run sched (boot env file)) = Exited 0 \<longrightarrow>
        times CtxCancelled (events (run sched (boot env file))) = 1
        \<and> times (Slog LevelInfo shutdown_msg None) (events (run sched (boot env file))) = 1
        \<and> times (Shutdown (5 * Second)) (events (run sched (boot env file))) = 1
        \<and> times (Slog LevelInfo exit_msg None) (events (run sched (boot env file))) = 1)
   \<and> (Env (config (start env file)) = ''development''
        \<and> ctx_done (run sched (boot env file)) \<and> 4 \<le> main_steps cont \<longrightarrow>
        Slog LevelInfo shutdown_msg None \<in>
          set (events (run cont (run sched (boot env file))))
        \<and> Shutdown (5 * Second) \<in> set (events (run cont (run sched (boot env file))))
        \<and> earlier (Slog LevelInfo shutdown_msg None) (Shutdown (5 * Second))
             (events (run cont (run sched (boot env file)))))"
proof -
  let ?s = "run sched (boot env file)"
  have tr: "filter ctl (events ?s) = ctl_trace ?s"
    using ordered_run_boot [of sched env "file"] by (simp add: ordered_def)
  have t: "times a (events ?s) = times a (ctl_trace ?s)" if "ctl a" for a
    using times_filter [of ctl a "events ?s"] that tr by simp
  have e: "earlier a b (events ?s) = earlier a b (ctl_trace ?s)" if "ctl a" "ctl b" for a b
    using earlier_filter [of ctl a b "events ?s"] that tr by simp
  have m: "(a \<in> set (events ?s)) = (a \<in> set (ctl_trace ?s))" if "ctl a" for a
    using member_filter [of ctl a "events ?s"] that tr by simp
  have returned: "main_at ?s = Return" if "state ?s = Exited 0"
    using sound_run_boot [of sched env "file"] that by (simp add: sound_def)
  have safety:
    "times CtxCancelled (events ?s) \<le> 1
     \<and> earlier CtxCancelled (Shutdown (5 * Second)) (events ?s)
     \<and> earlier CtxCancelled (Slog LevelInfo shutdown_msg None) (events ?s)
     \<and> earlier (Slog LevelInfo shutdown_msg None) (Shutdown (5 * Second)) (events ?s)
     \<and> (Shutdown d \<in> set (events ?s) \<longrightarrow> d = 5 * Second)
     \<and> times (Shutdown (5 * Second)) (events ?s) \<le> 1
     \<and> earlier (Shutdown (5 * Second)) (Slog LevelInfo exit_msg None) (events ?s)
     \<and> (state ?s = Exited 0 \<longrightarrow>
          times CtxCancelled (events ?s) = 1
          \<and> times (Slog LevelInfo shutdown_msg None) (events ?s) = 1
          \<and> times (Shutdown (5 * Second)) (events ?s) = 1
          \<and> times (Slog LevelInfo exit_msg None) (events ?s) = 1)"
    using ctl_trace_order [where s = "?s"] ctl_trace_complete [of ?s] returned
    by (simp add: t e m)
  have progress:
    "Slog LevelInfo shutdown_msg None \<in> set (events (run cont ?s))
     \<and> Shutdown (5 * Second) \<in> set (events (run cont ?s))
     \<and> earlier (Slog LevelInfo shutdown_msg None) (Shutdown (5 * Second))
          (events (run cont ?s))"
    if dev: "Env (config (start env file)) = ''development''"
      and fired: "ctx_done ?s" and fair: "4 \<le> main_steps cont"
  proof -
    let ?t = "run cont ?s"
    have ord: "ordered ?s"
      by (rule ordered_run_boot)
    have snd: "sound ?s"
      by (rule sound_run_boot)
    from ord fired have taken: "armed ?s" and past: "227 < at_line (main_at ?s)"
      by (simp_all add: ordered_def)
    from past have "server ?s = dev_server (config (start env file)) router"
      using server_of_loaded [OF loaded_run_boot, of sched env "file"] by simp
    with dev have built: "server ?s \<noteq> None"
      by (simp add: dev_server_Some)
    from snd built taken have "state ?s = Running \<or> main_at ?s = Return"
      by (auto simp: sound_def)
    then have "state ?s = Running \<or> 254 \<le> at_line (main_at ?s)"
      by auto
    with built taken fired past have sig: "signalled ?s"
      by (simp add: signalled_def)
    from past have "to_drain (main_at ?s) \<le> 4"
      by (cases "main_at ?s") simp_all
    with fair have "to_drain (main_at ?s) \<le> main_steps cont"
      by simp
    with sig have drained: "254 \<le> at_line (main_at ?t)"
      by (rule drain_progress)
    have same: "?t = run (sched @ cont) (boot env file)"
      by (simp add: run_append)
    have "ordered ?t"
      unfolding same by (rule ordered_run_boot)
    then have tr': "filter ctl (events ?t) = ctl_trace ?t"
      by (simp add: ordered_def)
    have "Slog LevelInfo shutdown_msg None \<in> set (filter ctl (events ?t))"
      and "Shutdown (5 * Second) \<in> set (filter ctl (events ?t))"
      using ctl_trace_drained [OF drained] tr' by simp_all
    moreover have "earlier (Slog LevelInfo shutdown_msg None) (Shutdown (5 * Second))
        (events ?t)"
      using earlier_filter [of ctl "Slog LevelInfo shutdown_msg None"
          "Shutdown (5 * Second)" "events ?t"] ctl_trace_order(7) [of ?t] tr'
      by simp
    ultimately show ?thesis
      by simp
  qed
  from safety progress show ?thesis
    by blast
qed

theorem C3_shutdown_order_witness:
  "Env (config (start development None)) = ''development''
   \<and> ctx_done (run [Main, Main, Main, Main, Main, Main, Task, Signal]
                 (boot development None))
   \<and> 4 \<le> main_steps [Main, Task, Main, Main, Main]
   \<and> events (run [Main, Task, Main, Main, Main]
               (run [Main, Main, Main, Main, Main, Main, Task, Signal]
                  (boot development None))) =
       [Stdout starts_msg, Slog LevelWarn dotenv_warning None,
        Stdout (listening_msg '':4000''), CtxCancelled, ListenAndServe '':4000'',
        Slog LevelInfo shutdown_msg None, Shutdown (5 * Second)]
   \<and> Shutdown (5 * Second) \<in>
       set (events (run [Main, Task, Main, Main, Main]
                      (run [Main, Main, Main, Main, Main, Main, Task, Signal]
                         (boot development None))))"
proof -
  let ?sched = "[Main, Main, Main, Main, Main, Main, Task, Signal]"
  let ?cont = "[Main, Task, Main, Main, Main]"
  have dev: "Env (config (start development None)) = ''development''"
    by (simp add: config_development)
  have same: "run ?sched (boot development None) = run [Task, Signal] (start development None)"
    by (simp add: start_def)
  have fired: "ctx_done (run ?sched (boot development None))"
    unfolding same by (simp add: start_development step_def task_step_def)
  have fair: "4 \<le> main_steps ?cont"
    by (simp add: main_steps_def)
  have ev: "events (run ?cont (run ?sched (boot development None))) =
       [Stdout starts_msg, Slog LevelWarn dotenv_warning None,
        Stdout (listening_msg '':4000''), CtxCancelled, ListenAndServe '':4000'',
        Slog LevelInfo shutdown_msg None, Shutdown (5 * Second)]"
    unfolding same by (simp add: start_development step_def task_step_def main_step_def)
  from C3_shutdown_order [of ?sched development None 0 ?cont] dev fired fair
  have "Shutdown (5 * Second) \<in> set (events (run ?cont (run ?sched (boot development None))))"
    by blast
  with dev fired fair ev show ?thesis
    by simp
qed

text \<open>
  Claim C4.  For a configuration whose environment field is \<open>development\<close> the server
  that is built has the port field of the configuration as its address, a read and a
  write timeout of 10 seconds and an idle timeout of 60 seconds (in nanoseconds), and the
  router as its handler; this is the server of the process throughout every run.
\<close>

theorem C4_development_server:
  "(Env cfg = ''development'' \<longrightarrow>
      dev_server cfg r =
        Some \<lparr>Addr = Port cfg, Handler = r, ReadTimeout = 10 * 1000000000,
              WriteTimeout = 10 * 1000000000, IdleTimeout = 60 * 1000000000\<rparr>)
   \<and> (Env (config (start env file)) = ''development'' \<longrightarrow>
      server (run sched (start env file)) =
        Some \<lparr>Addr = Port (config (start env file)), Handler = router,
              ReadTimeout = 10 * 1000000000, WriteTimeout = 10 * 1000000000,
              IdleTimeout = 60 * 1000000000\<rparr>)"
  by (simp add: server_run_start dev_server_Some Second_def)

theorem C4_development_server_witness:
  "Env (config (start development None)) = ''development''
   \<and> server (run [Task, Task] (start development None)) =
       Some \<lparr>Addr = '':4000'', Handler = router, ReadTimeout = 10000000000,
             WriteTimeout = 10000000000, IdleTimeout = 60000000000\<rparr>"
  using C4_development_server [of _ _ development None "[Task, Task]"]
  by (simp add: config_development)

lemma step_Task_check:
  assumes "state s = Running" and "task_at s = CheckListenErr"
  shows "task_err s = Some e \<Longrightarrow> e \<noteq> ErrServerClosed \<Longrightarrow>
           step Task s = s\<lparr>events := events s @ [Slog LevelError starting_err_msg (Some e)],
                            task_at := Ended\<rparr>"
    and "task_err s = Some ErrServerClosed \<Longrightarrow> step Task s = s\<lparr>task_at := Ended\<rparr>"
    and "task_err s = None \<Longrightarrow> step Task s = s\<lparr>task_at := Ended\<rparr>"
  using assms by (simp_all add: step_def task_step_def)

lemma step_ListenAndServeReturns:
  assumes "state s = Running" and "task_at s = InListenAndServe"
  shows "step (ListenAndServeReturns err) s = s\<lparr>task_err := err, task_at := CheckListenErr\<rparr>"
  using assms by (simp add: step_def)

text \<open>
  Claim C5.  Let the goroutine be blocked in \<open>ListenAndServe\<close> in a running process.
  When the call returns an error other than \<open>http.ErrServerClosed\<close>, the goroutine adds
  one record at error level with that error to the log and ends; when it returns
  \<open>http.ErrServerClosed\<close> the goroutine ends and logs nothing.  Either way the process
  keeps running and the controlling path stays where it was.  No run from the start of
  the program ever logs \<open>http.ErrServerClosed\<close> as an error of the accept loop.
\<close>

theorem C5_accept_loop_error:
  assumes "state s = Running" and "task_at s = InListenAndServe"
  shows "(e \<noteq> ErrServerClosed \<longrightarrow>
            run [ListenAndServeReturns (Some e), Task] s =
              s\<lparr>task_err := Some e, task_at := Ended,
                events := events s @ [Slog LevelError starting_err_msg (Some e)]\<rparr>)
       \<and> run [ListenAndServeReturns (Some ErrServerClosed), Task] s =
            s\<lparr>task_err := Some ErrServerClosed, task_at := Ended\<rparr>
       \<and> state (run [ListenAndServeReturns err, Task] s) = Running
       \<and> main_at (run [ListenAndServeReturns err, Task] s) = main_at s
       \<and> ctx_done (run [ListenAndServeReturns err, Task] s) = ctx_done s
       \<and> Slog LevelError starting_err_msg (Some ErrServerClosed) \<notin>
            set (events (run sched (start env file)))"
proof (intro conjI impI)
  assume "e \<noteq> ErrServerClosed"
  with assms show "run [ListenAndServeReturns (Some e), Task] s =
      s\<lparr>task_err := Some e, task_at := Ended,
        events := events s @ [Slog LevelError starting_err_msg (Some e)]\<rparr>"
    by (simp add: step_ListenAndServeReturns step_Task_check)
next
  from assms show "run [ListenAndServeReturns (Some ErrServerClosed), Task] s =
      s\<lparr>task_err := Some ErrServerClosed, task_at := Ended\<rparr>"
    by (simp add: step_ListenAndServeReturns step_Task_check)
next
  have after: "run [ListenAndServeReturns err, Task] s =
      step Task (s\<lparr>task_err := err, task_at := CheckListenErr\<rparr>)"
    using assms by (simp add: step_ListenAndServeReturns)
  from assms show "state (run [ListenAndServeReturns err, Task] s) = Running"
    unfolding after by (simp add: step_def task_step_def)
  from assms show "main_at (run [ListenAndServeReturns err, Task] s) = main_at s"
    unfolding after by (simp add: step_def task_step_def)
  from assms show "ctx_done (run [ListenAndServeReturns err, Task] s) = ctx_done s"
    unfolding after by (simp add: step_def task_step_def)
next
  show "Slog LevelError starting_err_msg (Some ErrServerClosed) \<notin>
          set (events (run sched (start env file)))"
    using sound_run [of sched env "file"] by (auto simp: sound_def)
qed

theorem C5_accept_loop_error_witness:
  "state (run [Task, Task] (start development None)) = Running
   \<and> task_at (run [Task, Task] (start development None)) = InListenAndServe
   \<and> events (run [ListenAndServeReturns
                    (Some (Err ''listen tcp :4000: bind: address already in use'')), Task]
               (run [Task, Task] (start development None))) =
       [Stdout starts_msg, Slog LevelWarn dotenv_warning None,
        Stdout (listening_msg '':4000''), ListenAndServe '':4000'',
        Slog LevelError starting_err_msg
          (Some (Err ''listen tcp :4000: bind: address already in use''))]
   \<and> main_at (run [ListenAndServeReturns
                    (Some (Err ''listen tcp :4000: bind: address already in use'')), Task]
               (run [Task, Task] (start development None))) = AwaitSignal"
proof -
  let ?s = "run [Task, Task] (start development None)"
  have at: "state ?s = Running" "task_at ?s = InListenAndServe"
    and before: "events ?s =
       [Stdout starts_msg, Slog LevelWarn dotenv_warning None,
        Stdout (listening_msg '':4000''), ListenAndServe '':4000'']"
       "main_at ?s = AwaitSignal"
    by (simp_all add: start_development step_def task_step_def)
  from C5_accept_loop_error
         [OF at, of "Err ''listen tcp :4000: bind: address already in use''"
            "Some (Err ''listen tcp :4000: bind: address already in use'')"]
    at before
  show ?thesis by simp
qed

lemma serve_root:
  assumes "Method req = ''GET''" and "URLPath req = ''/''"
  shows "ServeHTTP router w req = Write relay_started w"
  using assms
  by (simp add: ServeHTTP_def router_def Get_def NewRouter_def root_handler_def
        chi_methods_def)

lemma relay_started_is_spec_body:
  "json_compact Outside relay_started = json_compact Outside spec_body"
  by (simp add: relay_started_def spec_body_def)

text \<open>
  Claim C9.  A \<open>GET\<close> request for \<open>/\<close>, served by the router on a fresh response
  writer, is answered with status 200 and with the bytes of the literal of line 206 as
  the body, which is the JSON text \<open>{"message": "Relay Service Started"}\<close> of the
  specification up to white space that JSON ignores.
\<close>

theorem C9_liveness_route:
  assumes "Method req = ''GET''" and "URLPath req = ''/''" and "\<not> wroteHeader w"
    and "written w = []"
  shows "statusCode (ServeHTTP router w req) = 200
       \<and> written (ServeHTTP router w req) = relay_started
       \<and> json_compact Outside (written (ServeHTTP router w req)) =
           json_compact Outside spec_body"
  using assms
  by (simp add: serve_root Write_def WriteHeader_def relay_started_is_spec_body)

theorem C9_liveness_route_witness:
  "statusCode (ServeHTTP router NewResponseWriter \<lparr>Method = ''GET'', URLPath = ''/''\<rparr>) = 200
   \<and> written (ServeHTTP router NewResponseWriter \<lparr>Method = ''GET'', URLPath = ''/''\<rparr>) =
       ''{ '' @ [CHR 0x22] @ ''message'' @ [CHR 0x22] @ '': '' @
       [CHR 0x22] @ ''Relay Service Started'' @ [CHR 0x22] @ '' }''"
  using C9_liveness_route
          [of "\<lparr>Method = ''GET'', URLPath = ''/''\<rparr>" NewResponseWriter]
  by (simp add: NewResponseWriter_def relay_started_def)

end
